theory Spec2Isabelle
  imports Complex_Main "HOL-Library.Word"
begin

section \<open>Values read by the header\<close>

text \<open>
  \<open>int64_t\<close> is a signed 64-bit word; the header only compares such values, with the
  signed order \<open>\<le>s\<close>.

  A C++ \<open>double\<close> is only ever compared in the header (\<open>==\<close>, \<open><\<close>, \<open>>\<close>), never
  computed with. Its values are a NaN, the two infinities and the finite values; the
  finite values are embedded in the reals (both zeros are the real 0, which is how
  \<open>==\<close> treats them). Every comparison with a NaN operand is false.
\<close>

type_synonym int64_t = "64 word"

datatype double = NaN | NegInf | Finite real | PosInf

fun double_less :: "double \<Rightarrow> double \<Rightarrow> bool" where
  "double_less NaN y = False"
| "double_less x NaN = False"
| "double_less NegInf NegInf = False"
| "double_less NegInf y = True"
| "double_less (Finite x) (Finite y) = (x < y)"
| "double_less (Finite x) PosInf = True"
| "double_less (Finite x) NegInf = False"
| "double_less PosInf y = False"

definition double_greater :: "double \<Rightarrow> double \<Rightarrow> bool" where
  "double_greater x y = double_less y x"

definition double_eq :: "double \<Rightarrow> double \<Rightarrow> bool" where
  "double_eq x y = (x \<noteq> NaN \<and> y \<noteq> NaN \<and> x = y)"

section \<open>IDataDistributionTeam\<close>

text \<open>
  The team interface is abstract: every member function is pure virtual. A team reference
  (taken to point to a team) is modelled by what the const member functions of its team
  return, restricted to the read load that the comparison reads, the reads in flight, and
  the health and space checks.
  \<open>getLoadReadBandwidth\<close> keeps both parameters of the declaration (\<open>includeInFlight\<close>,
  \<open>inflightPenalty\<close>).
\<close>

record IDataDistributionTeam =
  getReadInFlightToTeam :: int64_t
  getLoadReadBandwidth :: "bool \<Rightarrow> double \<Rightarrow> double"
  isHealthy :: bool
  hasHealthyAvailableSpace :: "double \<Rightarrow> bool"

type_synonym TeamRef = IDataDistributionTeam

text \<open>The default argument \<open>inflightPenalty = 1.0\<close> of the declaration.\<close>

definition defaultInflightPenalty :: double where
  "defaultInflightPenalty = Finite 1"

section \<open>TeamSelect and GetTeamRequest\<close>

datatype TeamSelect = ANY | WANT_COMPLETE_SRCS | WANT_TRUE_BEST

text \<open>
  Modelled from the spec: the \<open>Promise\<close> type of the reply field is declared outside the
  header. The spec makes the reply a single-fulfillment slot: empty until it is fulfilled
  with a value.
\<close>

datatype 'a Promise = Unset | Fulfilled 'a

text \<open>
  \<open>UID\<close> and \<open>KeyRange\<close> are declared outside the header; they are the type parameters
  \<open>'uid\<close> and \<open>'keys\<close>.
\<close>

record ('uid, 'keys) GetTeamRequest =
  teamSelect :: TeamSelect
  preferLowerDiskUtil :: bool
  teamMustHaveShards :: bool
  forReadBalance :: bool
  preferLowerReadUtil :: bool
  inflightPenalty :: double
  findTeamByServers :: bool
  keys :: "'keys option"
  completeSources :: "'uid list"
  src :: "'uid list"
  reply :: "(TeamRef option \<times> bool) Promise"

text \<open>The constructor \<open>GetTeamRequest(std::vector<UID> servers)\<close>.\<close>

definition GetTeamRequest_servers :: "'uid list \<Rightarrow> ('uid, 'keys) GetTeamRequest" where
  "GetTeamRequest_servers servers =
     \<lparr> teamSelect = WANT_COMPLETE_SRCS,
       preferLowerDiskUtil = False,
       teamMustHaveShards = False,
       forReadBalance = False,
       preferLowerReadUtil = False,
       inflightPenalty = Finite 1,
       findTeamByServers = True,
       keys = None,
       completeSources = [],
       src = servers,
       reply = Unset \<rparr>"

text \<open>
  The constructor that takes the selection criteria; the defaults of its trailing
  parameters are \<open>ForReadBalance::False\<close>, \<open>PreferLowerReadUtil::False\<close>, \<open>1.0\<close> and
  an empty \<open>Optional<KeyRange>\<close>.
\<close>

definition GetTeamRequest_criteria ::
  "TeamSelect \<Rightarrow> bool \<Rightarrow> bool \<Rightarrow> bool \<Rightarrow> bool \<Rightarrow> double \<Rightarrow> 'keys option
     \<Rightarrow> ('uid, 'keys) GetTeamRequest" where
  "GetTeamRequest_criteria teamSelectRequest preferLowerDiskUtil' teamMustHaveShards'
       forReadBalance' preferLowerReadUtil' inflightPenalty' keys' =
     \<lparr> teamSelect = teamSelectRequest,
       preferLowerDiskUtil = preferLowerDiskUtil',
       teamMustHaveShards = teamMustHaveShards',
       forReadBalance = forReadBalance',
       preferLowerReadUtil = preferLowerReadUtil',
       inflightPenalty = inflightPenalty',
       findTeamByServers = False,
       keys = keys',
       completeSources = [],
       src = [],
       reply = Unset \<rparr>"

subsection \<open>The comparison\<close>

text \<open>\<open>lessCompareByLoad\<close>: \<open>lessLoad = aLoadBytes <= bLoadBytes\<close>, negated when
  \<open>preferLowerDiskUtil\<close> is set.\<close>

definition lessCompareByLoad ::
  "('uid, 'keys) GetTeamRequest \<Rightarrow> int64_t \<Rightarrow> int64_t \<Rightarrow> bool" where
  "lessCompareByLoad req aLoadBytes bLoadBytes =
     (let lessLoad = aLoadBytes \<le>s bLoadBytes
      in if preferLowerDiskUtil req then \<not> lessLoad else lessLoad)"

text \<open>\<open>greaterReadLoad\<close>: both teams are read with \<open>getLoadReadBandwidth(true)\<close>.\<close>

definition greaterReadLoad :: "TeamRef \<Rightarrow> TeamRef \<Rightarrow> int" where
  "greaterReadLoad a b =
     (let r1 = getLoadReadBandwidth a True defaultInflightPenalty;
          r2 = getLoadReadBandwidth b True defaultInflightPenalty
      in if double_eq r1 r2 then 0 else (if double_greater r1 r2 then - 1 else 1))"

text \<open>\<open>lessReadLoad\<close>: both teams are read with \<open>getLoadReadBandwidth(false)\<close>.\<close>

definition lessReadLoad :: "TeamRef \<Rightarrow> TeamRef \<Rightarrow> int" where
  "lessReadLoad a b =
     (let r1 = getLoadReadBandwidth a False defaultInflightPenalty;
          r2 = getLoadReadBandwidth b False defaultInflightPenalty
      in if double_eq r1 r2 then 0 else (if double_less r1 r2 then - 1 else 1))"

definition lessCompare ::
  "('uid, 'keys) GetTeamRequest \<Rightarrow> TeamRef \<Rightarrow> TeamRef \<Rightarrow> int64_t \<Rightarrow> int64_t \<Rightarrow> bool" where
  "lessCompare req a b aLoadBytes bLoadBytes =
     (let res = (if forReadBalance req
                 then (if preferLowerReadUtil req then greaterReadLoad a b else lessReadLoad a b)
                 else 0)
      in if res = 0 then lessCompareByLoad req aLoadBytes bLoadBytes else res < 0)"

section \<open>The selector's scan\<close>

text \<open>
  Modelled from the spec: the selector that calls \<open>lessCompare\<close> is not in the header.
  Its candidate enumeration (step 1 of the placement algorithm) is left to the caller: a
  candidate is a team together with the load bytes the selector obtained for it from
  \<open>getLoadBytes\<close> and the number of shards it owns.
\<close>

record Candidate =
  team :: TeamRef
  loadBytes :: int64_t
  shardCount :: nat

text \<open>
  Modelled from the spec: the scan loop of the selector is not in the header. Step 3 of
  the placement algorithm retains "the best by the comparison rule": the retained
  candidate is replaced by the next one when it compares less than it.
\<close>

definition retainBest ::
  "('uid, 'keys) GetTeamRequest \<Rightarrow> Candidate option \<Rightarrow> Candidate \<Rightarrow> Candidate option" where
  "retainBest req best c =
     (case best of
        None \<Rightarrow> Some c
      | Some b \<Rightarrow>
          if lessCompare req (team b) (team c) (loadBytes b) (loadBytes c) then Some c
          else Some b)"

text \<open>
  Modelled from the spec: for \<open>WANT_TRUE_BEST\<close>, step 3 scans every surviving candidate,
  with no early exit.
\<close>

definition scanTrueBest ::
  "('uid, 'keys) GetTeamRequest \<Rightarrow> Candidate list \<Rightarrow> Candidate option" where
  "scanTrueBest req cs = foldl (retainBest req) None cs"

text \<open>
  Modelled from the spec: the selection among the survivors (step 3) is not in the header.
  Only \<open>WANT_TRUE_BEST\<close> forces the full scan; the other modes return the first candidate
  that survived the filter.
\<close>

definition selectWinner ::
  "('uid, 'keys) GetTeamRequest \<Rightarrow> Candidate list \<Rightarrow> Candidate option" where
  "selectWinner req survivors =
     (if teamSelect req = WANT_TRUE_BEST then scanTrueBest req survivors
      else (case survivors of [] \<Rightarrow> None | c # rest \<Rightarrow> Some c))"

section \<open>Example inputs\<close>

text \<open>
  A healthy team with the given in-flight reads, whose read bandwidth is \<open>base\<close> without
  in-flight reads and \<open>withInFlight\<close> with them.
\<close>

definition exampleTeam :: "int64_t \<Rightarrow> real \<Rightarrow> real \<Rightarrow> TeamRef" where
  "exampleTeam inFlight base withInFlight =
     \<lparr> getReadInFlightToTeam = inFlight,
       getLoadReadBandwidth = (\<lambda>includeInFlight penalty.
          if includeInFlight then Finite withInFlight else Finite base),
       isHealthy = True,
       hasHealthyAvailableSpace = (\<lambda>minRatio. True) \<rparr>"

text \<open>A request for the true best team with the given three criteria.\<close>

definition exampleRequest :: "bool \<Rightarrow> bool \<Rightarrow> bool \<Rightarrow> (nat, string \<times> string) GetTeamRequest" where
  "exampleRequest lowerDisk readBalance lowerRead =
     GetTeamRequest_criteria WANT_TRUE_BEST lowerDisk False readBalance lowerRead (Finite 1) None"

text \<open>A candidate that owns one shard.\<close>

definition exampleCandidate :: "TeamRef \<Rightarrow> int64_t \<Rightarrow> Candidate" where
  "exampleCandidate t l = \<lparr> team = t, loadBytes = l, shardCount = 1 \<rparr>"

section \<open>Comparison of doubles\<close>

lemma double_less_irrefl: "\<not> double_less x x"
  by (cases x) simp_all

lemma double_less_asym: "double_less x y \<Longrightarrow> \<not> double_less y x"
  by (cases x; cases y) simp_all

lemma double_less_trans: "double_less x y \<Longrightarrow> double_less y z \<Longrightarrow> double_less x z"
  by (cases x; cases y; cases z) simp_all

lemma double_less_not_eq: "double_less x y \<Longrightarrow> \<not> double_eq x y"
  by (cases x; cases y) (simp_all add: double_eq_def)

lemma double_eq_sym: "double_eq x y = double_eq y x"
  by (auto simp: double_eq_def)

lemma double_eq_trans: "double_eq x y \<Longrightarrow> double_eq y z \<Longrightarrow> double_eq x z"
  by (auto simp: double_eq_def)

lemma double_less_eq_left: "double_eq x y \<Longrightarrow> double_less x z = double_less y z"
  by (auto simp: double_eq_def)

lemma double_less_eq_right: "double_eq y z \<Longrightarrow> double_less x y = double_less x z"
  by (auto simp: double_eq_def)

lemma double_trichotomy:
  "x \<noteq> NaN \<Longrightarrow> y \<noteq> NaN \<Longrightarrow> double_less x y \<or> double_eq x y \<or> double_less y x"
  by (cases x; cases y) (auto simp: double_eq_def)

section \<open>Facts about the example inputs and the comparison\<close>

lemma exampleRequest_simps [simp]:
  "preferLowerDiskUtil (exampleRequest d r l) = d"
  "forReadBalance (exampleRequest d r l) = r"
  "preferLowerReadUtil (exampleRequest d r l) = l"
  "teamSelect (exampleRequest d r l) = WANT_TRUE_BEST"
  "teamMustHaveShards (exampleRequest d r l) = False"
  "reply (exampleRequest d r l) = Unset"
  by (simp_all add: exampleRequest_def GetTeamRequest_criteria_def)

lemma exampleTeam_simps [simp]:
  "getLoadReadBandwidth (exampleTeam f b w) True p = Finite w"
  "getLoadReadBandwidth (exampleTeam f b w) False p = Finite b"
  "getReadInFlightToTeam (exampleTeam f b w) = f"
  "isHealthy (exampleTeam f b w) = True"
  "hasHealthyAvailableSpace (exampleTeam f b w) r = True"
  by (simp_all add: exampleTeam_def)

lemma lessCompareByLoad_iff:
  "lessCompareByLoad req la lb = (if preferLowerDiskUtil req then lb <s la else la \<le>s lb)"
  by (auto simp: lessCompareByLoad_def)

lemma lessCompare_unfold:
  "lessCompare req a b la lb =
     (if forReadBalance req then
        (if preferLowerReadUtil req then
           (let r1 = getLoadReadBandwidth a True defaultInflightPenalty;
                r2 = getLoadReadBandwidth b True defaultInflightPenalty
            in if double_eq r1 r2 then lessCompareByLoad req la lb else double_less r2 r1)
         else
           (let r1 = getLoadReadBandwidth a False defaultInflightPenalty;
                r2 = getLoadReadBandwidth b False defaultInflightPenalty
            in if double_eq r1 r2 then lessCompareByLoad req la lb else double_less r1 r2))
      else lessCompareByLoad req la lb)"
  by (simp add: lessCompare_def greaterReadLoad_def lessReadLoad_def double_greater_def Let_def)

lemma lessCompareByLoad_trans:
  "lessCompareByLoad req x y \<Longrightarrow> lessCompareByLoad req y z \<Longrightarrow> lessCompareByLoad req x z"
  by (auto simp: lessCompareByLoad_iff word_sle_eq word_sless_alt split: if_splits)

lemma double_lex_trans:
  assumes "if double_eq x y then P else double_less x y"
    and "if double_eq y z then Q else double_less y z"
    and "P \<Longrightarrow> Q \<Longrightarrow> R"
  shows "if double_eq x z then R else double_less x z"
proof (cases "double_eq x y")
  case xy: True
  show ?thesis
  proof (cases "double_eq y z")
    case yz: True
    with xy assms show ?thesis by (simp add: double_eq_trans [OF xy yz])
  next
    case yz: False
    with assms have "double_less y z" by simp
    with xy have lt: "double_less x z" by (simp add: double_less_eq_left)
    then show ?thesis by (simp add: double_less_not_eq)
  qed
next
  case xy: False
  with assms have lt: "double_less x y" by simp
  show ?thesis
  proof (cases "double_eq y z")
    case yz: True
    with lt have "double_less x z" by (simp add: double_less_eq_right)
    then show ?thesis by (simp add: double_less_not_eq)
  next
    case yz: False
    with assms have "double_less y z" by simp
    with lt have "double_less x z" by (rule double_less_trans)
    then show ?thesis by (simp add: double_less_not_eq)
  qed
qed

lemma lessCompare_trans:
  assumes ab: "lessCompare req a b la lb" and bc: "lessCompare req b c lb lc"
  shows "lessCompare req a c la lc"
proof (cases "forReadBalance req")
  case False
  with ab bc show ?thesis
    by (auto simp: lessCompare_unfold dest: lessCompareByLoad_trans)
next
  case frb: True
  have byLoad: "lessCompareByLoad req la lb \<Longrightarrow> lessCompareByLoad req lb lc
      \<Longrightarrow> lessCompareByLoad req la lc"
    by (rule lessCompareByLoad_trans)
  show ?thesis
  proof (cases "preferLowerReadUtil req")
    case True
    let ?r = "\<lambda>t. getLoadReadBandwidth t True defaultInflightPenalty"
    from ab frb True
    have 1: "if double_eq (?r c) (?r b) then lessCompareByLoad req lb lc
             else double_less (?r c) (?r b)"
      using bc by (simp add: lessCompare_unfold Let_def double_eq_sym)
    from ab frb True
    have 2: "if double_eq (?r b) (?r a) then lessCompareByLoad req la lb
             else double_less (?r b) (?r a)"
      by (simp add: lessCompare_unfold Let_def double_eq_sym)
    from double_lex_trans [OF 1 2 byLoad]
    have "if double_eq (?r c) (?r a) then lessCompareByLoad req la lc
          else double_less (?r c) (?r a)"
      by simp
    with frb True show ?thesis
      by (simp add: lessCompare_unfold Let_def double_eq_sym)
  next
    case False
    let ?r = "\<lambda>t. getLoadReadBandwidth t False defaultInflightPenalty"
    from ab frb False
    have 1: "if double_eq (?r a) (?r b) then lessCompareByLoad req la lb
             else double_less (?r a) (?r b)"
      by (simp add: lessCompare_unfold Let_def)
    from bc frb False
    have 2: "if double_eq (?r b) (?r c) then lessCompareByLoad req lb lc
             else double_less (?r b) (?r c)"
      by (simp add: lessCompare_unfold Let_def)
    from double_lex_trans [OF 1 2 byLoad]
    have "if double_eq (?r a) (?r c) then lessCompareByLoad req la lc
          else double_less (?r a) (?r c)"
      by simp
    with frb False show ?thesis
      by (simp add: lessCompare_unfold Let_def)
  qed
qed


section \<open>The comparison rule\<close>

text \<open>
  Claim C1. For every request and all teams \<open>a\<close>, \<open>b\<close>: when \<open>forReadBalance\<close> is set
  and the two read loads are not equal, \<open>lessCompare\<close> is decided by the read loads alone:
  with \<open>preferLowerReadUtil\<close> it holds exactly when \<open>a\<close> has the greater read load (the
  lower read load scores higher), without it exactly when \<open>a\<close> has the lower read load (the
  higher read load scores higher). When \<open>forReadBalance\<close> is off, or the two read loads are
  equal, it is the comparison of the load bytes: \<open>bLoadBytes < aLoadBytes\<close> when
  \<open>preferLowerDiskUtil\<close> is set (the lower load wins), \<open>aLoadBytes \<le> bLoadBytes\<close>
  otherwise (the higher load wins).
\<close>

theorem lessCompare_read_load_then_load_bytes:
  "(forReadBalance req \<and> preferLowerReadUtil req \<and>
      \<not> double_eq (getLoadReadBandwidth a True defaultInflightPenalty)
                  (getLoadReadBandwidth b True defaultInflightPenalty)
    \<longrightarrow> lessCompare req a b la lb =
          double_greater (getLoadReadBandwidth a True defaultInflightPenalty)
                         (getLoadReadBandwidth b True defaultInflightPenalty)) \<and>
   (forReadBalance req \<and> \<not> preferLowerReadUtil req \<and>
      \<not> double_eq (getLoadReadBandwidth a False defaultInflightPenalty)
                  (getLoadReadBandwidth b False defaultInflightPenalty)
    \<longrightarrow> lessCompare req a b la lb =
          double_less (getLoadReadBandwidth a False defaultInflightPenalty)
                      (getLoadReadBandwidth b False defaultInflightPenalty)) \<and>
   (\<not> forReadBalance req \<or>
      (preferLowerReadUtil req \<and>
         double_eq (getLoadReadBandwidth a True defaultInflightPenalty)
                   (getLoadReadBandwidth b True defaultInflightPenalty)) \<or>
      (\<not> preferLowerReadUtil req \<and>
         double_eq (getLoadReadBandwidth a False defaultInflightPenalty)
                   (getLoadReadBandwidth b False defaultInflightPenalty))
    \<longrightarrow> lessCompare req a b la lb = lessCompareByLoad req la lb) \<and>
   (preferLowerDiskUtil req \<longrightarrow> lessCompareByLoad req la lb = (lb <s la)) \<and>
   (\<not> preferLowerDiskUtil req \<longrightarrow> lessCompareByLoad req la lb = (la \<le>s lb))"
  by (simp add: lessCompare_unfold lessCompareByLoad_iff double_greater_def Let_def)

theorem lessCompare_read_load_then_load_bytes_witness:
  "(forReadBalance (exampleRequest True True True) \<and>
    preferLowerReadUtil (exampleRequest True True True) \<and>
    \<not> double_eq (getLoadReadBandwidth (exampleTeam 4 10 14) True defaultInflightPenalty)
                (getLoadReadBandwidth (exampleTeam 0 12 12) True defaultInflightPenalty) \<and>
    lessCompare (exampleRequest True True True) (exampleTeam 4 10 14) (exampleTeam 0 12 12) 7 9) \<and>
   (forReadBalance (exampleRequest True True False) \<and>
    \<not> preferLowerReadUtil (exampleRequest True True False) \<and>
    \<not> double_eq (getLoadReadBandwidth (exampleTeam 4 10 14) False defaultInflightPenalty)
                (getLoadReadBandwidth (exampleTeam 0 12 12) False defaultInflightPenalty) \<and>
    lessCompare (exampleRequest True True False) (exampleTeam 4 10 14) (exampleTeam 0 12 12) 7 9) \<and>
   (\<not> forReadBalance (exampleRequest True False False) \<and>
    preferLowerDiskUtil (exampleRequest True False False) \<and>
    lessCompare (exampleRequest True False False) (exampleTeam 4 10 14) (exampleTeam 0 12 12) 9 7 \<and>
    \<not> lessCompare (exampleRequest True False False) (exampleTeam 4 10 14) (exampleTeam 0 12 12) 7 9) \<and>
   (forReadBalance (exampleRequest False True False) \<and>
    \<not> preferLowerDiskUtil (exampleRequest False True False) \<and>
    double_eq (getLoadReadBandwidth (exampleTeam 4 12 16) False defaultInflightPenalty)
              (getLoadReadBandwidth (exampleTeam 0 12 12) False defaultInflightPenalty) \<and>
    lessCompare (exampleRequest False True False) (exampleTeam 4 12 16) (exampleTeam 0 12 12) 7 9 \<and>
    \<not> lessCompare (exampleRequest False True False) (exampleTeam 4 12 16) (exampleTeam 0 12 12) 9 7)"
  using
    lessCompare_read_load_then_load_bytes
      [of "exampleRequest True True True" "exampleTeam 4 10 14" "exampleTeam 0 12 12" 7 9]
    lessCompare_read_load_then_load_bytes
      [of "exampleRequest True True False" "exampleTeam 4 10 14" "exampleTeam 0 12 12" 7 9]
    lessCompare_read_load_then_load_bytes
      [of "exampleRequest True False False" "exampleTeam 4 10 14" "exampleTeam 0 12 12" 9 7]
    lessCompare_read_load_then_load_bytes
      [of "exampleRequest True False False" "exampleTeam 4 10 14" "exampleTeam 0 12 12" 7 9]
    lessCompare_read_load_then_load_bytes
      [of "exampleRequest False True False" "exampleTeam 4 12 16" "exampleTeam 0 12 12" 7 9]
    lessCompare_read_load_then_load_bytes
      [of "exampleRequest False True False" "exampleTeam 4 12 16" "exampleTeam 0 12 12" 9 7]
  by (simp add: double_eq_def double_greater_def)

text \<open>
  Claim C2 says that \<open>lessCompare\<close> is irreflexive and asymmetric for every request, so
  that two teams whose read loads and load bytes are both equal compare less in neither
  direction. The header does not do that: \<open>lessCompareByLoad\<close> compares with
  \<open>aLoadBytes <= bLoadBytes\<close> when \<open>preferLowerDiskUtil\<close> is off. For the request with
  \<open>preferLowerDiskUtil\<close> and \<open>forReadBalance\<close> both off and load bytes 5 on both sides, a
  team compares less than itself, and two teams each compare less than the other. The
  comment on \<open>lessCompare\<close> asks for "true if a.score < b.score", and the branch for
  \<open>preferLowerDiskUtil\<close> set is strict: there the same team does not compare less than
  itself.
\<close>

theorem lessCompare_less_than_itself:
  "\<not> preferLowerDiskUtil (exampleRequest False False False) \<and>
   \<not> forReadBalance (exampleRequest False False False) \<and>
   lessCompare (exampleRequest False False False) (exampleTeam 0 10 10) (exampleTeam 0 10 10) 5 5 \<and>
   lessCompare (exampleRequest False False False) (exampleTeam 0 10 10) (exampleTeam 0 12 12) 5 5 \<and>
   lessCompare (exampleRequest False False False) (exampleTeam 0 12 12) (exampleTeam 0 10 10) 5 5 \<and>
   \<not> lessCompare (exampleRequest True False False) (exampleTeam 0 10 10) (exampleTeam 0 10 10) 5 5"
  by (simp add: lessCompare_def lessCompareByLoad_def)

text \<open>
  Claim C3. For every request and all teams \<open>A\<close>, \<open>B\<close>, \<open>C\<close> with their load bytes: if
  \<open>lessCompare(A, B)\<close> and \<open>lessCompare(B, C)\<close> hold, then \<open>lessCompare(A, C)\<close> holds.
  This includes read loads that are NaN or infinite.
\<close>

theorem lessCompare_transitive:
  assumes "lessCompare req a b la lb" and "lessCompare req b c lb lc"
  shows "lessCompare req a c la lc"
  using assms by (rule lessCompare_trans)

theorem lessCompare_transitive_witness:
  "lessCompare (exampleRequest False True True) (exampleTeam 4 10 14) (exampleTeam 0 12 12) 7 9 \<and>
   lessCompare (exampleRequest False True True) (exampleTeam 0 12 12) (exampleTeam 2 11 12) 9 11 \<and>
   lessCompare (exampleRequest False True True) (exampleTeam 4 10 14) (exampleTeam 2 11 12) 7 11"
proof -
  have ab: "lessCompare (exampleRequest False True True)
              (exampleTeam 4 10 14) (exampleTeam 0 12 12) 7 9"
    by (simp add: lessCompare_def greaterReadLoad_def double_eq_def double_greater_def)
  have bc: "lessCompare (exampleRequest False True True)
              (exampleTeam 0 12 12) (exampleTeam 2 11 12) 9 11"
    by (simp add: lessCompare_def greaterReadLoad_def double_eq_def lessCompareByLoad_def)
  from lessCompare_transitive [OF ab bc] ab bc show ?thesis by simp
qed

section \<open>The scan for the true best team\<close>

text \<open>
  Claim C4. With \<open>preferLowerDiskUtil\<close> set and \<open>forReadBalance\<close> off, for three
  candidates whose load bytes are 100, 50 and 75, the candidate with load bytes 50 is the
  unique best under the comparison rule (each of the others compares less than it and it
  compares less than neither), and the \<open>WANT_TRUE_BEST\<close> scan returns it in whichever order
  the three candidates are visited.
\<close>

theorem scan_prefers_lowest_load:
  assumes "teamSelect req = WANT_TRUE_BEST" and "preferLowerDiskUtil req" and "\<not> forReadBalance req"
    and "loadBytes x = 100" and "loadBytes y = 50" and "loadBytes z = 75"
  shows "lessCompare req (team x) (team y) (loadBytes x) (loadBytes y) \<and>
         lessCompare req (team z) (team y) (loadBytes z) (loadBytes y) \<and>
         \<not> lessCompare req (team y) (team x) (loadBytes y) (loadBytes x) \<and>
         \<not> lessCompare req (team y) (team z) (loadBytes y) (loadBytes z) \<and>
         selectWinner req [x, y, z] = Some y \<and>
         selectWinner req [x, z, y] = Some y \<and>
         selectWinner req [y, x, z] = Some y \<and>
         selectWinner req [y, z, x] = Some y \<and>
         selectWinner req [z, x, y] = Some y \<and>
         selectWinner req [z, y, x] = Some y"
  using assms
  by (simp add: selectWinner_def scanTrueBest_def retainBest_def lessCompare_unfold
      lessCompareByLoad_iff)

theorem scan_prefers_lowest_load_witness:
  "teamSelect (exampleRequest True False False) = WANT_TRUE_BEST \<and>
   preferLowerDiskUtil (exampleRequest True False False) \<and>
   \<not> forReadBalance (exampleRequest True False False) \<and>
   loadBytes (exampleCandidate (exampleTeam 0 1 1) 100) = 100 \<and>
   loadBytes (exampleCandidate (exampleTeam 0 2 2) 50) = 50 \<and>
   loadBytes (exampleCandidate (exampleTeam 0 3 3) 75) = 75 \<and>
   selectWinner (exampleRequest True False False)
     [exampleCandidate (exampleTeam 0 1 1) 100, exampleCandidate (exampleTeam 0 2 2) 50,
      exampleCandidate (exampleTeam 0 3 3) 75]
     = Some (exampleCandidate (exampleTeam 0 2 2) 50)"
  using scan_prefers_lowest_load
    [of "exampleRequest True False False" "exampleCandidate (exampleTeam 0 1 1) 100"
        "exampleCandidate (exampleTeam 0 2 2) 50" "exampleCandidate (exampleTeam 0 3 3) 75"]
  by (simp add: exampleCandidate_def)

text \<open>
  Claim C5. With \<open>forReadBalance\<close> set and \<open>preferLowerReadUtil\<close> off, for three
  candidates whose read bandwidths (without in-flight reads, as \<open>lessReadLoad\<close> reads them)
  are 10, 40 and 25, the candidate with read bandwidth 40 is the unique best under the
  comparison rule, and the \<open>WANT_TRUE_BEST\<close> scan returns it in whichever order the three
  candidates are visited.
\<close>

theorem scan_prefers_highest_read_load:
  assumes "teamSelect req = WANT_TRUE_BEST" and "forReadBalance req" and "\<not> preferLowerReadUtil req"
    and "getLoadReadBandwidth (team x) False defaultInflightPenalty = Finite 10"
    and "getLoadReadBandwidth (team y) False defaultInflightPenalty = Finite 40"
    and "getLoadReadBandwidth (team z) False defaultInflightPenalty = Finite 25"
  shows "lessCompare req (team x) (team y) (loadBytes x) (loadBytes y) \<and>
         lessCompare req (team z) (team y) (loadBytes z) (loadBytes y) \<and>
         \<not> lessCompare req (team y) (team x) (loadBytes y) (loadBytes x) \<and>
         \<not> lessCompare req (team y) (team z) (loadBytes y) (loadBytes z) \<and>
         selectWinner req [x, y, z] = Some y \<and>
         selectWinner req [x, z, y] = Some y \<and>
         selectWinner req [y, x, z] = Some y \<and>
         selectWinner req [y, z, x] = Some y \<and>
         selectWinner req [z, x, y] = Some y \<and>
         selectWinner req [z, y, x] = Some y"
  using assms
  by (simp add: selectWinner_def scanTrueBest_def retainBest_def lessCompare_unfold
      double_eq_def Let_def)

theorem scan_prefers_highest_read_load_witness:
  "teamSelect (exampleRequest False True False) = WANT_TRUE_BEST \<and>
   forReadBalance (exampleRequest False True False) \<and>
   \<not> preferLowerReadUtil (exampleRequest False True False) \<and>
   getLoadReadBandwidth (team (exampleCandidate (exampleTeam 9 10 90) 7)) False
     defaultInflightPenalty = Finite 10 \<and>
   getLoadReadBandwidth (team (exampleCandidate (exampleTeam 0 40 40) 7)) False
     defaultInflightPenalty = Finite 40 \<and>
   getLoadReadBandwidth (team (exampleCandidate (exampleTeam 0 25 25) 7)) False
     defaultInflightPenalty = Finite 25 \<and>
   selectWinner (exampleRequest False True False)
     [exampleCandidate (exampleTeam 9 10 90) 7, exampleCandidate (exampleTeam 0 40 40) 7,
      exampleCandidate (exampleTeam 0 25 25) 7]
     = Some (exampleCandidate (exampleTeam 0 40 40) 7)"
  using scan_prefers_highest_read_load
    [of "exampleRequest False True False" "exampleCandidate (exampleTeam 9 10 90) 7"
        "exampleCandidate (exampleTeam 0 40 40) 7" "exampleCandidate (exampleTeam 0 25 25) 7"]
  by (simp add: exampleCandidate_def)

section \<open>Read loads with and without in-flight reads\<close>

text \<open>
  Claim C9. The two directions of the read-load comparison read different quantities: with
  \<open>preferLowerReadUtil\<close> the teams are compared on \<open>getLoadReadBandwidth\<close> with
  \<open>includeInFlight = true\<close>, without it on \<open>getLoadReadBandwidth\<close> with
  \<open>includeInFlight = false\<close>. Hence there are two teams with non-zero in-flight reads for
  each of which the two quantities differ; for the pair exhibited, the first team compares
  less than the second in both directions.
\<close>

theorem read_load_directions_sample_differently:
  "(forReadBalance req \<and> preferLowerReadUtil req \<longrightarrow>
      lessCompare req a b la lb =
        (if double_eq (getLoadReadBandwidth a True defaultInflightPenalty)
                      (getLoadReadBandwidth b True defaultInflightPenalty)
         then lessCompareByLoad req la lb
         else double_greater (getLoadReadBandwidth a True defaultInflightPenalty)
                             (getLoadReadBandwidth b True defaultInflightPenalty))) \<and>
   (forReadBalance req \<and> \<not> preferLowerReadUtil req \<longrightarrow>
      lessCompare req a b la lb =
        (if double_eq (getLoadReadBandwidth a False defaultInflightPenalty)
                      (getLoadReadBandwidth b False defaultInflightPenalty)
         then lessCompareByLoad req la lb
         else double_less (getLoadReadBandwidth a False defaultInflightPenalty)
                          (getLoadReadBandwidth b False defaultInflightPenalty))) \<and>
   (\<exists>hot cool.
      getReadInFlightToTeam hot \<noteq> 0 \<and> getReadInFlightToTeam cool \<noteq> 0 \<and>
      getLoadReadBandwidth hot True defaultInflightPenalty
        \<noteq> getLoadReadBandwidth hot False defaultInflightPenalty \<and>
      getLoadReadBandwidth cool True defaultInflightPenalty
        \<noteq> getLoadReadBandwidth cool False defaultInflightPenalty \<and>
      (forReadBalance req \<longrightarrow> lessCompare req hot cool la lb))"
proof -
  have "getReadInFlightToTeam (exampleTeam 40 10 50) \<noteq> 0 \<and>
        getReadInFlightToTeam (exampleTeam 5 20 25) \<noteq> 0 \<and>
        getLoadReadBandwidth (exampleTeam 40 10 50) True defaultInflightPenalty
          \<noteq> getLoadReadBandwidth (exampleTeam 40 10 50) False defaultInflightPenalty \<and>
        getLoadReadBandwidth (exampleTeam 5 20 25) True defaultInflightPenalty
          \<noteq> getLoadReadBandwidth (exampleTeam 5 20 25) False defaultInflightPenalty \<and>
        (forReadBalance req \<longrightarrow>
           lessCompare req (exampleTeam 40 10 50) (exampleTeam 5 20 25) la lb)"
    by (simp add: lessCompare_unfold double_eq_def)
  then have "\<exists>hot cool.
      getReadInFlightToTeam hot \<noteq> 0 \<and> getReadInFlightToTeam cool \<noteq> 0 \<and>
      getLoadReadBandwidth hot True defaultInflightPenalty
        \<noteq> getLoadReadBandwidth hot False defaultInflightPenalty \<and>
      getLoadReadBandwidth cool True defaultInflightPenalty
        \<noteq> getLoadReadBandwidth cool False defaultInflightPenalty \<and>
      (forReadBalance req \<longrightarrow> lessCompare req hot cool la lb)"
    by blast
  then show ?thesis
    by (simp add: lessCompare_unfold double_greater_def Let_def)
qed

theorem read_load_directions_sample_differently_witness:
  "forReadBalance (exampleRequest False True True) \<and>
   preferLowerReadUtil (exampleRequest False True True) \<and>
   lessCompare (exampleRequest False True True) (exampleTeam 40 10 50) (exampleTeam 5 20 25) 1 2 \<and>
   forReadBalance (exampleRequest False True False) \<and>
   \<not> preferLowerReadUtil (exampleRequest False True False) \<and>
   lessCompare (exampleRequest False True False) (exampleTeam 40 10 50) (exampleTeam 5 20 25) 1 2"
  using
    read_load_directions_sample_differently
      [of "exampleRequest False True True" "exampleTeam 40 10 50" "exampleTeam 5 20 25" 1 2]
    read_load_directions_sample_differently
      [of "exampleRequest False True False" "exampleTeam 40 10 50" "exampleTeam 5 20 25" 1 2]
  by (simp add: double_eq_def double_greater_def)

section \<open>The constructor from a server list\<close>

text \<open>
  Claim C10. For every server list, the constructor taking a \<open>std::vector<UID>\<close> gives a
  request with \<open>teamSelect = WANT_COMPLETE_SRCS\<close>, \<open>findTeamByServers\<close> true, the servers
  in \<open>src\<close>, \<open>completeSources\<close> empty, \<open>preferLowerDiskUtil\<close>, \<open>teamMustHaveShards\<close>,
  \<open>forReadBalance\<close> and \<open>preferLowerReadUtil\<close> all false, and \<open>inflightPenalty = 1.0\<close>.
\<close>

theorem GetTeamRequest_servers_fields:
  "teamSelect (GetTeamRequest_servers servers) = WANT_COMPLETE_SRCS \<and>
   findTeamByServers (GetTeamRequest_servers servers) \<and>
   src (GetTeamRequest_servers servers) = servers \<and>
   completeSources (GetTeamRequest_servers servers) = [] \<and>
   \<not> preferLowerDiskUtil (GetTeamRequest_servers servers) \<and>
   \<not> teamMustHaveShards (GetTeamRequest_servers servers) \<and>
   \<not> forReadBalance (GetTeamRequest_servers servers) \<and>
   \<not> preferLowerReadUtil (GetTeamRequest_servers servers) \<and>
   inflightPenalty (GetTeamRequest_servers servers) = Finite 1"
  by (simp add: GetTeamRequest_servers_def)

end
